theory Spec2Isabelle
  imports Complex_Main "HOL-Library.AList"
begin

section \<open>Stem normalizer: data model\<close>

text \<open>
  The program (\<^verbatim>\<open>normalizer.py\<close>) loads the audio files of a folder, overlays them
  into one mix, measures the integrated loudness of the mix, subtracts it from the target
  and applies the resulting gain to every stem before exporting them; a second function
  re-reads an output folder and compares its loudness with the target.

  Python's \<^verbatim>\<open>float\<close> is idealised as \<^typ>\<open>real\<close>: the special values \<^verbatim>\<open>inf\<close> and
  \<^verbatim>\<open>nan\<close> are not represented, and rounding is represented only where a float is
  truncated to an integer afterwards (the frame count of the silent buffer), through the
  rounding function of the environment.
\<close>

text \<open>
  Modelled from the spec: the decoded audio value (\<^verbatim>\<open>pydub.AudioSegment\<close>) is a class of a
  library outside the repository. Following the Stem of the data model it carries a sample
  rate and the amplitude values over time; the amplitudes are unquantised and one per
  frame.
\<close>

record audio_segment =
  frame_rate :: nat
  samples :: "real list"

text \<open>
  The content of a file: audio in some container format that decodes to a segment, or
  anything else (text, a corrupt file, a directory entry that is not a regular file).
\<close>

datatype file_content = AudioFile string audio_segment | NotAudio

text \<open>The exceptions that the modelled paths can raise.\<close>

datatype error =
    FileNotFoundError
  | CouldntDecodeError
  | AssertionError
  | ValueError
  | NameError string

text \<open>
  The world the functions act on: the directories, each an ordered listing of named
  entries (the order is the one \<^verbatim>\<open>os.listdir\<close> returns), and the lines printed so far.
  A file is addressed by its directory and its entry name, which is what
  \<^verbatim>\<open>os.path.join(folder, filename)\<close> denotes for a name listed in \<^verbatim>\<open>folder\<close>.
\<close>

record world =
  fs :: "string \<Rightarrow> (string \<times> file_content) list option"
  console :: "string list"

text \<open>
  What the program takes from outside the repository and the model leaves open: the
  loudness meter (\<^verbatim>\<open>pyln.Meter(rate).integrated_loudness(data)\<close>, which raises
  \<^verbatim>\<open>ValueError\<close> on data it rejects, here \<open>None\<close>), Python's two float formats,
  \<^verbatim>\<open>{x}\<close> and \<^verbatim>\<open>{x:.2f}\<close>, the rate converter of the audio library
  (\<^verbatim>\<open>audioop.ratecv\<close>: the frames at one frame rate to frames at another), and the
  rounding of the exact result of a float operation to the float that stores it.
\<close>

record env =
  meter :: "nat \<Rightarrow> real list \<Rightarrow> real option"
  float_str :: "real \<Rightarrow> string"
  float_2f :: "real \<Rightarrow> string"
  ratecv :: "nat \<Rightarrow> nat \<Rightarrow> real list \<Rightarrow> real list"
  float_round :: "real \<Rightarrow> real"

section \<open>Library operations\<close>

subsection \<open>Console and paths\<close>

definition py_print :: "string \<Rightarrow> world \<Rightarrow> world" where
  "py_print line w = w\<lparr>console := console w @ [line]\<rparr>"

text \<open>\<^verbatim>\<open>os.path.basename\<close> and the two-argument \<^verbatim>\<open>os.path.join\<close>, POSIX flavour.\<close>

definition basename :: "string \<Rightarrow> string" where
  "basename p = rev (takeWhile (\<lambda>c. c \<noteq> CHR ''/'') (rev p))"

definition path_join :: "string \<Rightarrow> string \<Rightarrow> string" where
  "path_join a b =
     (if b \<noteq> [] \<and> hd b = CHR ''/'' then b
      else if a = [] \<or> last a = CHR ''/'' then a @ b
      else a @ ''/'' @ b)"

definition os_listdir :: "world \<Rightarrow> string \<Rightarrow> error + string list" where
  "os_listdir w folder =
     (case fs w folder of
        None \<Rightarrow> Inl FileNotFoundError
      | Some entries \<Rightarrow> Inr (map fst entries))"

text \<open>\<^verbatim>\<open>os.makedirs(path, exist_ok=True)\<close>: an existing directory is left as it is.\<close>

definition makedirs :: "string \<Rightarrow> world \<Rightarrow> world" where
  "makedirs folder w =
     (case fs w folder of
        None \<Rightarrow> w\<lparr>fs := (fs w)(folder \<mapsto> [])\<rparr>
      | Some entries \<Rightarrow> w)"

subsection \<open>Audio segments\<close>

text \<open>
  Modelled from the spec: \<^verbatim>\<open>AudioSegment.from_file\<close> of the audio library (the Audio I/O
  adapter's \<^verbatim>\<open>load(path) -> Stem | DecodeError\<close>). A file that holds audio decodes to its
  segment; anything else is a decoding error.
\<close>

definition from_file :: "world \<Rightarrow> string \<Rightarrow> string \<Rightarrow> error + audio_segment" where
  "from_file w folder filename =
     (case fs w folder of
        None \<Rightarrow> Inl FileNotFoundError
      | Some entries \<Rightarrow>
          (case map_of entries filename of
             None \<Rightarrow> Inl FileNotFoundError
           | Some NotAudio \<Rightarrow> Inl CouldntDecodeError
           | Some (AudioFile fmt seg) \<Rightarrow> Inr seg))"

text \<open>
  Modelled from the spec: \<^verbatim>\<open>AudioSegment.export\<close> of the audio library (the adapter's
  \<^verbatim>\<open>save(stem, path, format)\<close>). The encoded bytes are the format tag and the segment they
  decode to; writing to a path replaces the entry of that name or adds it to the listing.
  The directory has to exist.
\<close>

definition export_bytes :: "audio_segment \<Rightarrow> string \<Rightarrow> file_content" where
  "export_bytes seg fmt = AudioFile fmt seg"

definition export_file :: "world \<Rightarrow> string \<Rightarrow> string \<Rightarrow> audio_segment \<Rightarrow> string \<Rightarrow> error + world" where
  "export_file w folder filename seg fmt =
     (case fs w folder of
        None \<Rightarrow> Inl FileNotFoundError
      | Some entries \<Rightarrow>
          Inr (w\<lparr>fs := (fs w)(folder \<mapsto> AList.update filename (export_bytes seg fmt) entries)\<rparr>))"

text \<open>
  Modelled from the spec: \<^verbatim>\<open>soundfile.read\<close>, which returns the sample data and the sample
  rate stored in the container (round trip: exporting a stem and re-loading it preserves
  the sample rate and, for a lossless container, the samples).
\<close>

definition sf_read :: "file_content \<Rightarrow> error + (real list \<times> nat)" where
  "sf_read f =
     (case f of
        NotAudio \<Rightarrow> Inl CouldntDecodeError
      | AudioFile fmt seg \<Rightarrow> Inr (samples seg, frame_rate seg))"

text \<open>
  \<^verbatim>\<open>AudioSegment.duration_seconds\<close> of the audio library: the number of frames divided by
  the frame rate, a float division, and 0 for a frame rate of 0.
\<close>

definition duration_seconds :: "env \<Rightarrow> audio_segment \<Rightarrow> real" where
  "duration_seconds e seg =
     (if frame_rate seg = 0 then 0
      else float_round e (real (length (samples seg)) / real (frame_rate seg)))"

text \<open>
  \<^verbatim>\<open>AudioSegment.silent(duration=1000, frame_rate=11025)\<close> of the audio library, called
  with a duration in milliseconds only: a buffer at the library's default frame rate of
  11025 with \<^verbatim>\<open>int(frame_rate * (duration / 1000.0))\<close> frames, all zero. The division and
  the product are float operations; \<^verbatim>\<open>int\<close> drops the fraction.
\<close>

definition silent :: "env \<Rightarrow> real \<Rightarrow> audio_segment" where
  "silent e duration =
     \<lparr>frame_rate = 11025,
      samples = replicate (nat \<lfloor>float_round e (11025 * float_round e (duration / 1000))\<rfloor>) 0\<rparr>"

text \<open>
  \<^verbatim>\<open>AudioSegment.set_frame_rate\<close> of the audio library: the segment itself when it has the
  rate already, and otherwise its frames converted by \<^verbatim>\<open>audioop.ratecv\<close> (an empty segment
  stays empty).
\<close>

definition set_frame_rate :: "env \<Rightarrow> audio_segment \<Rightarrow> nat \<Rightarrow> audio_segment" where
  "set_frame_rate e seg rate =
     (if rate = frame_rate seg then seg
      else \<lparr>frame_rate = rate,
            samples = (if samples seg = [] then []
                       else ratecv e (frame_rate seg) rate (samples seg))\<rparr>)"

text \<open>
  Modelled from the spec: \<^verbatim>\<open>AudioSegment.overlay\<close>: additive summation aligned at time
  zero onto the receiving segment, whose length is kept. A shorter operand is summed over
  its own length, a longer one is cut at the receiver's end. The library first brings both
  operands to the higher of their two frame rates.
\<close>

fun add_frames :: "real list \<Rightarrow> real list \<Rightarrow> real list" where
  "add_frames [] ys = []"
| "add_frames (x # xs) [] = x # xs"
| "add_frames (x # xs) (y # ys) = (x + y) # add_frames xs ys"

definition overlay :: "env \<Rightarrow> audio_segment \<Rightarrow> audio_segment \<Rightarrow> audio_segment" where
  "overlay e seg1 seg2 =
     (let rate = max (frame_rate seg1) (frame_rate seg2);
          seg1' = set_frame_rate e seg1 rate;
          seg2' = set_frame_rate e seg2 rate
      in seg1'\<lparr>samples := add_frames (samples seg1') (samples seg2')\<rparr>)"

text \<open>
  Modelled from the spec: \<^verbatim>\<open>AudioSegment.apply_gain\<close>: a new segment whose amplitudes are
  scaled by \<open>10^(gain/20)\<close>, metadata preserved, no clipping or limiting.
\<close>

definition db_to_float :: "real \<Rightarrow> real" where
  "db_to_float db = 10 powr (db / 20)"

definition apply_gain :: "audio_segment \<Rightarrow> real \<Rightarrow> audio_segment" where
  "apply_gain seg volume_change =
     seg\<lparr>samples := map (\<lambda>x. x * db_to_float volume_change) (samples seg)\<rparr>"

subsection \<open>Tolerance check\<close>

text \<open>
  \<^verbatim>\<open>numpy.isclose(a, b, rtol=1e-05, atol=1e-08)\<close> on finite scalars is
  \<open>|a - b| <= atol + rtol * |b|\<close>. The source passes \<^verbatim>\<open>atol=0.1\<close> and leaves \<^verbatim>\<open>rtol\<close>
  at its default.
\<close>

definition isclose_default_rtol :: real where
  "isclose_default_rtol = 1 / 100000"

definition np_isclose :: "real \<Rightarrow> real \<Rightarrow> real \<Rightarrow> real \<Rightarrow> bool" where
  "np_isclose a b rtol atol = (\<bar>a - b\<bar> \<le> atol + rtol * \<bar>b\<bar>)"

section \<open>The program\<close>

definition VALID_AUDIO_EXTENSIONS :: "string list" where
  "VALID_AUDIO_EXTENSIONS = [''.wav'', ''.mp3'', ''.flac'', ''.aac'', ''.ogg'', ''.m4a'']"

text \<open>\<^verbatim>\<open>str.lower\<close> on the ASCII letters, and \<^verbatim>\<open>str.endswith\<close>.\<close>

definition lower_char :: "char \<Rightarrow> char" where
  "lower_char c =
     (case map_of (zip ''ABCDEFGHIJKLMNOPQRSTUVWXYZ'' ''abcdefghijklmnopqrstuvwxyz'') c of
        None \<Rightarrow> c
      | Some l \<Rightarrow> l)"

definition lower :: "string \<Rightarrow> string" where
  "lower s = map lower_char s"

definition endswith :: "string \<Rightarrow> string \<Rightarrow> bool" where
  "endswith s ext = (length ext \<le> length s \<and> drop (length s - length ext) s = ext)"

text \<open>The test of lines 30 and 63: \<^verbatim>\<open>any(filename.lower().endswith(ext) for ext in ...)\<close>.\<close>

definition has_valid_extension :: "string \<Rightarrow> bool" where
  "has_valid_extension filename =
     list_ex (\<lambda>ext. endswith (lower filename) ext) VALID_AUDIO_EXTENSIONS"

text \<open>
  \<^verbatim>\<open>calculate_loudness\<close>: export the segment as WAV, read it back, assert that the rate read
  is the segment's, and measure with a meter made for that rate.
\<close>

definition calculate_loudness :: "env \<Rightarrow> audio_segment \<Rightarrow> error + real" where
  "calculate_loudness e audio_segment =
     (let sample_rate = frame_rate audio_segment;
          audio_bytes = export_bytes audio_segment ''wav''
      in case sf_read audio_bytes of
           Inl err \<Rightarrow> Inl err
         | Inr (data, sample_rate') \<Rightarrow>
             if sample_rate \<noteq> sample_rate' then Inl AssertionError
             else (case meter e sample_rate data of
                     None \<Rightarrow> Inl ValueError
                   | Some loudness \<Rightarrow> Inr loudness))"

definition adjust_gain :: "audio_segment \<Rightarrow> real \<Rightarrow> audio_segment" where
  "adjust_gain audio_segment gain_dB = apply_gain audio_segment gain_dB"

text \<open>
  The discovery loop of lines 29 to 34, over the names \<^verbatim>\<open>os.listdir\<close> returned, with the
  two lists it appends to. A file that does not decode raises.
\<close>

fun collect_stems ::
  "world \<Rightarrow> string \<Rightarrow> string list \<Rightarrow> audio_segment list \<Rightarrow> string list \<Rightarrow>
     error + (audio_segment list \<times> string list)" where
  "collect_stems w stems_folder [] stems filenames = Inr (stems, filenames)"
| "collect_stems w stems_folder (filename # rest) stems filenames =
     (if has_valid_extension filename then
        (case from_file w stems_folder filename of
           Inl err \<Rightarrow> Inl err
         | Inr audio \<Rightarrow>
             collect_stems w stems_folder rest (stems @ [audio]) (filenames @ [filename]))
      else collect_stems w stems_folder rest stems filenames)"

text \<open>
  Lines 40 to 42 (and 70 to 72): a silent segment made from the first stem's duration in
  milliseconds (a float product), and every stem overlaid on it in turn. \<open>first\<close> is
  \<^verbatim>\<open>stems[0]\<close>, which exists where the callers use the mix: both return or raise on an
  empty list before.
\<close>

definition main_mix :: "env \<Rightarrow> audio_segment \<Rightarrow> audio_segment list \<Rightarrow> audio_segment" where
  "main_mix e first stems =
     foldl (overlay e) (silent e (float_round e (duration_seconds e first * 1000))) stems"

text \<open>Line 45.\<close>

definition gain_adjustment_dB :: "real \<Rightarrow> real \<Rightarrow> real" where
  "gain_adjustment_dB target_loudness_LUFS combined_loudness_LUFS =
     target_loudness_LUFS - combined_loudness_LUFS"

text \<open>Lines 49 to 51 (and 86 to 87): the output folder of a stems folder.\<close>

definition output_folder_of :: "env \<Rightarrow> string \<Rightarrow> real \<Rightarrow> string \<Rightarrow> string" where
  "output_folder_of e stems_folder target_loudness_LUFS output_base_folder =
     (let song_name = basename stems_folder;
          output_folder_name = song_name @ ''_'' @ float_str e target_loudness_LUFS @ ''LUFS''
      in path_join output_base_folder output_folder_name)"

text \<open>The export loop of lines 54 to 56 over the zipped names and adjusted stems.\<close>

fun export_all :: "world \<Rightarrow> string \<Rightarrow> (string \<times> audio_segment) list \<Rightarrow> error + world" where
  "export_all w output_folder [] = Inr w"
| "export_all w output_folder ((filename, adjusted_stem) # rest) =
     (case export_file w output_folder filename adjusted_stem ''wav'' of
        Inl err \<Rightarrow> Inl err
      | Inr w' \<Rightarrow> export_all w' output_folder rest)"

text \<open>
  \<^verbatim>\<open>adjust_stems_in_folder\<close>. The function returns nothing; its result is the world it
  leaves, or the exception it raises. Every exception of the modelled paths is raised
  before the first effect, so a raised exception leaves the world as it was.
\<close>

definition adjust_stems_in_folder ::
  "env \<Rightarrow> string \<Rightarrow> real \<Rightarrow> string \<Rightarrow> world \<Rightarrow> error + world" where
  "adjust_stems_in_folder e stems_folder target_loudness_LUFS output_base_folder w =
     (case os_listdir w stems_folder of
        Inl err \<Rightarrow> Inl err
      | Inr names \<Rightarrow>
     (case collect_stems w stems_folder names [] [] of
        Inl err \<Rightarrow> Inl err
      | Inr (stems, filenames) \<Rightarrow>
     (case stems of
        [] \<Rightarrow> Inr (py_print (''No audio files found in '' @ stems_folder) w)
      | first # others \<Rightarrow>
     (case calculate_loudness e (main_mix e first stems) of
        Inl err \<Rightarrow> Inl err
      | Inr combined_loudness_LUFS \<Rightarrow>
          (let w1 = py_print (''Detected audio loudness: '' @
                      float_2f e combined_loudness_LUFS @ '' LUFS'') w;
               gain = gain_adjustment_dB target_loudness_LUFS combined_loudness_LUFS;
               w2 = py_print (''Gain to apply to every stem: '' @ float_2f e gain @ '' db'') w1;
               adjusted_stems = map (\<lambda>stem. adjust_gain stem gain) stems;
               output_folder =
                 output_folder_of e stems_folder target_loudness_LUFS output_base_folder;
               w3 = makedirs output_folder w2
           in case export_all w3 output_folder (zip filenames adjusted_stems) of
                Inl err \<Rightarrow> Inl err
              | Inr w4 \<Rightarrow> Inr (py_print (''Adjusted stems saved to '' @ output_folder) w4))))))"

text \<open>The discovery loop of lines 62 to 66, which keeps the stems only.\<close>

fun collect_output_stems ::
  "world \<Rightarrow> string \<Rightarrow> string list \<Rightarrow> audio_segment list \<Rightarrow> error + audio_segment list" where
  "collect_output_stems w output_folder [] stems = Inr stems"
| "collect_output_stems w output_folder (filename # rest) stems =
     (if has_valid_extension filename then
        (case from_file w output_folder filename of
           Inl err \<Rightarrow> Inl err
         | Inr audio \<Rightarrow> collect_output_stems w output_folder rest (stems @ [audio]))
      else collect_output_stems w output_folder rest stems)"

text \<open>
  \<^verbatim>\<open>verify_output_loudness\<close>. Line 68 formats \<^verbatim>\<open>stems_folder\<close>, a name that is neither a
  parameter or local of this function (its parameter is \<^verbatim>\<open>output_folder\<close>) nor bound at
  module level, so on an empty list of stems evaluating the message raises
  \<^verbatim>\<open>NameError\<close> before anything is printed and before the \<^verbatim>\<open>return\<close> of line 69.
\<close>

definition verify_output_loudness ::
  "env \<Rightarrow> string \<Rightarrow> real \<Rightarrow> world \<Rightarrow> error + (bool \<times> world)" where
  "verify_output_loudness e output_folder target_loudness_LUFS w =
     (case os_listdir w output_folder of
        Inl err \<Rightarrow> Inl err
      | Inr names \<Rightarrow>
     (case collect_output_stems w output_folder names [] of
        Inl err \<Rightarrow> Inl err
      | Inr stems \<Rightarrow>
     (case stems of
        [] \<Rightarrow> Inl (NameError ''stems_folder'')
      | first # others \<Rightarrow>
     (case calculate_loudness e (main_mix e first stems) of
        Inl err \<Rightarrow> Inl err
      | Inr combined_loudness_LUFS \<Rightarrow>
          Inr (np_isclose combined_loudness_LUFS target_loudness_LUFS isclose_default_rtol (1 / 10),
               py_print (''Combined loudness of output stems: '' @
                 float_2f e combined_loudness_LUFS @ '' LUFS'') w)))))"

section \<open>Auxiliary definitions for the statements\<close>

text \<open>
  The listing of a directory after the export loop has written the given named stems into
  it, and the listing a directory has before (empty when it does not exist yet).
\<close>

definition write_stems ::
  "(string \<times> file_content) list \<Rightarrow> (string \<times> audio_segment) list \<Rightarrow>
     (string \<times> file_content) list" where
  "write_stems entries pairs =
     foldl (\<lambda>es (filename, stem). AList.update filename (AudioFile ''wav'' stem) es) entries pairs"

definition existing_entries :: "world \<Rightarrow> string \<Rightarrow> (string \<times> file_content) list" where
  "existing_entries w folder = (case fs w folder of None \<Rightarrow> [] | Some entries \<Rightarrow> entries)"

text \<open>
  The exact duration of a segment in seconds; the silent buffer a mix starts from and the
  float product that \<^verbatim>\<open>AudioSegment.silent\<close> truncates to its frame count; and the frame
  rate the first overlay brings the buffer and the first stem to.
\<close>

definition duration :: "audio_segment \<Rightarrow> real" where
  "duration seg =
     (if frame_rate seg = 0 then 0 else real (length (samples seg)) / real (frame_rate seg))"




subsection \<open>Example data\<close>

text \<open>
  Three short stems at 11025 frames per second and one at 8000, an environment whose
  meter reads a fixed loudness, whose rate converter repeats or drops frames and whose
  float operations are exact, an input tree with a song folder and a folder without
  audio (and no output
  folder yet), and an output tree with the folder a run at a target of -14 leaves and a
  folder that holds no audio.
\<close>

definition example_first :: audio_segment where
  "example_first = \<lparr>frame_rate = 11025, samples = [1/2, 1/4]\<rparr>"

definition example_short :: audio_segment where
  "example_short = \<lparr>frame_rate = 11025, samples = [1/4]\<rparr>"



definition example_ratecv :: "nat \<Rightarrow> nat \<Rightarrow> real list \<Rightarrow> real list" where
  "example_ratecv inrate outrate frames =
     map (\<lambda>k. frames ! (k * inrate div outrate)) [0..<length frames * outrate div inrate]"

definition example_env :: "real \<Rightarrow> env" where
  "example_env reading =
     \<lparr>meter = (\<lambda>rate data. Some reading),
      float_str = (\<lambda>x. ''-14.0''),
      float_2f = (\<lambda>x. ''#.##''),
      ratecv = example_ratecv,
      float_round = (\<lambda>x. x)\<rparr>"

definition example_world :: world where
  "example_world =
     \<lparr>fs = [''/in/song'' \<mapsto>
              [(''kick.mp3'', AudioFile ''mp3'' example_first),
               (''notes.txt'', NotAudio),
               (''Vox.FLAC'', AudioFile ''flac'' example_short)],
            ''/in/docs'' \<mapsto> [(''notes.txt'', NotAudio), (''cover.jpg'', NotAudio)]],
      console = []\<rparr>"

definition example_output :: world where
  "example_output =
     \<lparr>fs = [''/out/song_-14.0LUFS'' \<mapsto>
              [(''kick.mp3'', AudioFile ''wav'' example_first),
               (''Vox.FLAC'', AudioFile ''wav'' example_short)],
            ''/out/docs_-14.0LUFS'' \<mapsto> [(''notes.txt'', NotAudio)]],
      console = []\<rparr>"

section \<open>The mix\<close>








subsection \<open>The length of the silent buffer\<close>














section \<open>Gain\<close>

text \<open>
  C7. Applying a gain of 0 dB leaves the sample values of a stem, and the stem, as they
  are.
\<close>

theorem adjust_gain_zero:
  "samples (adjust_gain stem 0) = samples stem \<and> adjust_gain stem 0 = stem"
  by (simp add: adjust_gain_def apply_gain_def db_to_float_def)

text \<open>
  C8. Applying a gain \<open>g1\<close> and then a gain \<open>g2\<close> gives the stem that the single gain
  \<open>g1 + g2\<close> gives; on unquantised amplitudes the two are equal, not only close.
\<close>

theorem adjust_gain_compose:
  "adjust_gain (adjust_gain stem g1) g2 = adjust_gain stem (g1 + g2)"
  by (simp add: adjust_gain_def apply_gain_def db_to_float_def powr_add add_divide_distrib
      mult.assoc)

text \<open>
  A uniform gain commutes with the mix when it commutes with the rate converter:
  overlaying the adjusted stems then gives the adjusted mix. What the pipeline measures
  after the adjustment is therefore the first mix scaled by \<open>10^(gain/20)\<close>; how close
  its loudness comes to the target is the meter's matter.
\<close>

lemma add_frames_scaled:
  "add_frames (map (\<lambda>x. x * c) xs) (map (\<lambda>x. x * c) ys) =
     map (\<lambda>x. x * (c::real)) (add_frames xs ys)"
  by (induction xs ys rule: add_frames.induct) (simp_all add: distrib_right)

lemma set_frame_rate_apply_gain:
  assumes "\<And>a b xs. ratecv e a b (map (\<lambda>x. x * db_to_float g) xs) =
             map (\<lambda>x. x * db_to_float g) (ratecv e a b xs)"
  shows "set_frame_rate e (apply_gain seg g) rate = apply_gain (set_frame_rate e seg rate) g"
  by (simp add: set_frame_rate_def apply_gain_def assms)

lemma overlay_apply_gain:
  assumes "\<And>a b xs. ratecv e a b (map (\<lambda>x. x * db_to_float g) xs) =
             map (\<lambda>x. x * db_to_float g) (ratecv e a b xs)"
  shows "overlay e (apply_gain seg1 g) (apply_gain seg2 g) = apply_gain (overlay e seg1 seg2) g"
proof -
  have rate: "frame_rate (apply_gain seg1 g) = frame_rate seg1"
    "frame_rate (apply_gain seg2 g) = frame_rate seg2"
    by (simp_all add: apply_gain_def)
  show ?thesis
    unfolding overlay_def Let_def rate set_frame_rate_apply_gain [OF assms]
    by (simp add: apply_gain_def add_frames_scaled)
qed

lemma foldl_overlay_apply_gain:
  assumes "\<And>a b xs. ratecv e a b (map (\<lambda>x. x * db_to_float g) xs) =
             map (\<lambda>x. x * db_to_float g) (ratecv e a b xs)"
  shows "foldl (overlay e) (apply_gain acc g) (map (\<lambda>stem. apply_gain stem g) stems) =
     apply_gain (foldl (overlay e) acc stems) g"
  by (induction stems arbitrary: acc) (simp_all add: overlay_apply_gain [OF assms])

lemma apply_gain_silent: "apply_gain (silent e ms) g = silent e ms"
  by (simp add: apply_gain_def silent_def)

lemma duration_seconds_apply_gain:
  "duration_seconds e (apply_gain seg g) = duration_seconds e seg"
  by (simp add: duration_seconds_def apply_gain_def)

lemma main_mix_adjust_gain:
  assumes "\<And>a b xs. ratecv e a b (map (\<lambda>x. x * db_to_float g) xs) =
             map (\<lambda>x. x * db_to_float g) (ratecv e a b xs)"
  shows "main_mix e (adjust_gain first g) (map (\<lambda>stem. adjust_gain stem g) stems) =
     adjust_gain (main_mix e first stems) g"
proof -
  have "main_mix e (apply_gain first g) (map (\<lambda>stem. apply_gain stem g) stems) =
      foldl (overlay e)
        (apply_gain (silent e (float_round e (duration_seconds e first * 1000))) g)
        (map (\<lambda>stem. apply_gain stem g) stems)"
    by (simp only: main_mix_def duration_seconds_apply_gain apply_gain_silent)
  also have "\<dots> = apply_gain (main_mix e first stems) g"
    by (simp only: foldl_overlay_apply_gain [OF assms] main_mix_def)
  finally show ?thesis by (simp only: adjust_gain_def)
qed

section \<open>Loudness measurement\<close>

text \<open>
  C9. The rate read back from the WAV export of a mix is the mix's frame rate, so the
  assertion of \<^verbatim>\<open>calculate_loudness\<close> never fails, and the meter is made for the mix's
  frame rate: the measurement is the meter's reading or the meter's own error.
\<close>

theorem calculate_loudness_assert_holds:
  "sf_read (export_bytes mix ''wav'') = Inr (samples mix, frame_rate mix) \<and>
   calculate_loudness e mix \<noteq> Inl AssertionError \<and>
   calculate_loudness e mix =
     (case meter e (frame_rate mix) (samples mix) of
        None \<Rightarrow> Inl ValueError
      | Some loudness \<Rightarrow> Inr loudness)"
  by (simp add: calculate_loudness_def sf_read_def export_bytes_def split: option.splits)

section \<open>Discovery and export\<close>

lemma collect_stems_empty:
  "filter has_valid_extension names = [] \<Longrightarrow>
     collect_stems w folder names stems filenames = Inr (stems, filenames)"
  by (induction names arbitrary: stems filenames) (simp_all split: if_splits)

lemma collect_output_stems_empty:
  "filter has_valid_extension names = [] \<Longrightarrow>
     collect_output_stems w folder names stems = Inr stems"
  by (induction names arbitrary: stems) (simp_all split: if_splits)

lemma collect_stems_decoded:
  "map (from_file w folder) (filter has_valid_extension names) = map Inr S \<Longrightarrow>
     collect_stems w folder names stems filenames =
       Inr (stems @ S, filenames @ filter has_valid_extension names)"
proof (induction names arbitrary: S stems filenames)
  case Nil
  then show ?case by simp
next
  case (Cons n names)
  show ?case
  proof (cases "has_valid_extension n")
    case False
    with Cons show ?thesis by simp
  next
    case True
    with Cons.prems obtain a S' where S: "S = a # S'" and a: "from_file w folder n = Inr a"
      and rest: "map (from_file w folder) (filter has_valid_extension names) = map Inr S'"
      by (cases S) auto
    from Cons.IH [OF rest, of "stems @ [a]" "filenames @ [n]"] True a S show ?thesis by simp
  qed
qed

lemma collect_output_stems_decoded:
  "map (from_file w folder) (filter has_valid_extension names) = map Inr S \<Longrightarrow>
     collect_output_stems w folder names stems = Inr (stems @ S)"
proof (induction names arbitrary: S stems)
  case Nil
  then show ?case by simp
next
  case (Cons n names)
  show ?case
  proof (cases "has_valid_extension n")
    case False
    with Cons show ?thesis by simp
  next
    case True
    with Cons.prems obtain a S' where S: "S = a # S'" and a: "from_file w folder n = Inr a"
      and rest: "map (from_file w folder) (filter has_valid_extension names) = map Inr S'"
      by (cases S) auto
    from Cons.IH [OF rest, of "stems @ [a]"] True a S show ?thesis by simp
  qed
qed

lemma export_all_writes:
  "fs w out = Some entries \<Longrightarrow>
     export_all w out pairs = Inr (w\<lparr>fs := (fs w)(out \<mapsto> write_stems entries pairs)\<rparr>)"
proof (induction pairs arbitrary: w entries)
  case Nil
  then show ?case by (simp add: write_stems_def fun_upd_idem)
next
  case (Cons p pairs)
  obtain filename stem where p: "p = (filename, stem)" by (cases p)
  let ?es = "AList.update filename (AudioFile ''wav'' stem) entries"
  let ?w = "w\<lparr>fs := (fs w)(out \<mapsto> ?es)\<rparr>"
  have step: "export_file w out filename stem ''wav'' = Inr ?w"
    using Cons.prems by (simp add: export_file_def export_bytes_def)
  have "fs ?w out = Some ?es" by simp
  from Cons.IH [OF this]
  have ih: "export_all ?w out pairs =
      Inr (?w\<lparr>fs := (fs ?w)(out \<mapsto> write_stems ?es pairs)\<rparr>)" .
  have same: "?w\<lparr>fs := (fs ?w)(out \<mapsto> write_stems ?es pairs)\<rparr> =
      w\<lparr>fs := (fs w)(out \<mapsto> write_stems ?es pairs)\<rparr>"
    by simp
  have unf: "write_stems entries (p # pairs) = write_stems ?es pairs"
    by (simp add: write_stems_def p)
  have "export_all w out (p # pairs) = export_all ?w out pairs"
    using step p by simp
  also note ih
  also note same
  finally show ?case by (simp only: unf)
qed

lemma map_of_write_stems_other:
  "filename \<notin> fst ` set pairs \<Longrightarrow>
     map_of (write_stems entries pairs) filename = map_of entries filename"
  unfolding write_stems_def
  by (induction pairs arbitrary: entries) (auto simp: update_conv')

lemma map_of_write_stems:
  "distinct (map fst pairs) \<Longrightarrow> (filename, stem) \<in> set pairs \<Longrightarrow>
     map_of (write_stems entries pairs) filename = Some (AudioFile ''wav'' stem)"
proof (induction pairs arbitrary: entries)
  case Nil
  then show ?case by simp
next
  case (Cons p pairs)
  obtain f s where p: "p = (f, s)" by (cases p)
  have unf: "write_stems entries (p # pairs) =
      write_stems (AList.update f (AudioFile ''wav'' s) entries) pairs"
    by (simp add: write_stems_def p)
  show ?case
  proof (cases "(filename, stem) \<in> set pairs")
    case True
    with Cons show ?thesis unfolding unf by simp
  next
    case False
    with Cons.prems p have eq: "f = filename" "s = stem" by auto
    from Cons.prems p eq have "filename \<notin> fst ` set pairs" by auto
    then show ?thesis unfolding unf
      by (simp add: map_of_write_stems_other update_conv' eq)
  qed
qed

lemma written_stems_lookup:
  assumes "distinct filenames" and "length filenames = length stems" and "i < length stems"
  shows "map_of (write_stems entries (zip filenames stems)) (filenames ! i) =
           Some (AudioFile ''wav'' (stems ! i))"
proof (rule map_of_write_stems)
  show "distinct (map fst (zip filenames stems))" using assms by simp
  show "(filenames ! i, stems ! i) \<in> set (zip filenames stems)"
    using assms by (auto simp: set_zip)
qed

lemma fs_makedirs:
  "fs (makedirs folder w) = (fs w)(folder \<mapsto> existing_entries w folder)"
  by (auto simp: makedirs_def existing_entries_def split: option.splits)

lemma console_makedirs: "console (makedirs folder w) = console w"
  by (simp add: makedirs_def split: option.splits)

text \<open>
  The world a successful run leaves: the three lines printed, and the output folder
  holding what was there before, overwritten or extended by the adjusted stems under the
  discovered names.
\<close>

lemma adjust_stems_in_folder_outcome:
  assumes dir: "fs w stems_folder = Some entries"
    and coll: "collect_stems w stems_folder (map fst entries) [] [] =
                 Inr (first # others, filenames)"
    and loud: "calculate_loudness e (main_mix e first (first # others)) = Inr measured"
  shows "adjust_stems_in_folder e stems_folder target base w =
     Inr (w\<lparr>fs := (fs w)(output_folder_of e stems_folder target base \<mapsto>
                 write_stems (existing_entries w (output_folder_of e stems_folder target base))
                   (zip filenames
                      (map (\<lambda>stem. adjust_gain stem (target - measured)) (first # others)))),
            console := console w @
              [''Detected audio loudness: '' @ float_2f e measured @ '' LUFS'',
               ''Gain to apply to every stem: '' @ float_2f e (target - measured) @ '' db'',
               ''Adjusted stems saved to '' @ output_folder_of e stems_folder target base]\<rparr>)"
proof -
  let ?out = "output_folder_of e stems_folder target base"
  let ?pairs = "zip filenames (map (\<lambda>stem. adjust_gain stem (target - measured)) (first # others))"
  let ?w2 = "py_print (''Gain to apply to every stem: '' @ float_2f e (target - measured) @ '' db'')
               (py_print (''Detected audio loudness: '' @ float_2f e measured @ '' LUFS'') w)"
  let ?w3 = "makedirs ?out ?w2"
  have "fs ?w3 ?out = Some (existing_entries ?w2 ?out)"
    by (simp add: fs_makedirs)
  from export_all_writes [OF this, of ?pairs]
  have ex: "export_all ?w3 ?out ?pairs =
      Inr (?w3\<lparr>fs := (fs ?w3)(?out \<mapsto> write_stems (existing_entries ?w2 ?out) ?pairs)\<rparr>)" .
  have final: "py_print (''Adjusted stems saved to '' @ ?out)
      (?w3\<lparr>fs := (fs ?w3)(?out \<mapsto> write_stems (existing_entries ?w2 ?out) ?pairs)\<rparr>) =
     w\<lparr>fs := (fs w)(?out \<mapsto> write_stems (existing_entries w ?out) ?pairs),
       console := console w @
              [''Detected audio loudness: '' @ float_2f e measured @ '' LUFS'',
               ''Gain to apply to every stem: '' @ float_2f e (target - measured) @ '' db'',
               ''Adjusted stems saved to '' @ ?out]\<rparr>"
    by (rule world.equality)
       (simp_all add: py_print_def fs_makedirs console_makedirs existing_entries_def)
  have "adjust_stems_in_folder e stems_folder target base w =
      (case export_all ?w3 ?out ?pairs of
         Inl err \<Rightarrow> Inl err
       | Inr w4 \<Rightarrow> Inr (py_print (''Adjusted stems saved to '' @ ?out) w4))"
    using dir coll loud
    by (simp add: adjust_stems_in_folder_def os_listdir_def gain_adjustment_dB_def Let_def)
  also have "\<dots> = Inr (py_print (''Adjusted stems saved to '' @ ?out)
      (?w3\<lparr>fs := (fs ?w3)(?out \<mapsto> write_stems (existing_entries ?w2 ?out) ?pairs)\<rparr>))"
    by (simp only: ex sum.case)
  also note final
  finally show ?thesis .
qed

subsection \<open>Facts about the example data\<close>

lemma valid_kick_mp3: "has_valid_extension ''kick.mp3''"
  by code_simp

lemma invalid_notes_txt: "\<not> has_valid_extension ''notes.txt''"
  by code_simp

lemma valid_Vox_FLAC: "has_valid_extension ''Vox.FLAC''"
  by code_simp

lemma invalid_cover_jpg: "\<not> has_valid_extension ''cover.jpg''"
  by code_simp

lemma example_output_folder:
  "output_folder_of (example_env r) ''/in/song'' t ''/out'' = ''/out/song_-14.0LUFS''"
  by (simp add: output_folder_of_def example_env_def basename_def path_join_def)

lemma example_env_2f: "float_2f (example_env r) x = ''#.##''"
  by (simp add: example_env_def)

lemma example_song_dir:
  "fs example_world ''/in/song'' =
     Some [(''kick.mp3'', AudioFile ''mp3'' example_first),
           (''notes.txt'', NotAudio),
           (''Vox.FLAC'', AudioFile ''flac'' example_short)]"
  by (simp add: example_world_def)

lemma example_song_names:
  "distinct (map fst [(''kick.mp3'', AudioFile ''mp3'' example_first),
           (''notes.txt'', NotAudio),
           (''Vox.FLAC'', AudioFile ''flac'' example_short)])"
  by simp

lemma example_song_decoded:
  "map (from_file example_world ''/in/song'')
     (filter has_valid_extension (map fst [(''kick.mp3'', AudioFile ''mp3'' example_first),
           (''notes.txt'', NotAudio),
           (''Vox.FLAC'', AudioFile ''flac'' example_short)])) =
   map Inr [example_first, example_short]"
  by (simp add: valid_kick_mp3 invalid_notes_txt valid_Vox_FLAC from_file_def example_song_dir)

lemma example_loudness: "calculate_loudness (example_env r) mix = Inr r"
  by (simp add: calculate_loudness_def sf_read_def export_bytes_def example_env_def)

lemma example_output_dir:
  "fs example_output ''/out/song_-14.0LUFS'' =
     Some [(''kick.mp3'', AudioFile ''wav'' example_first),
           (''Vox.FLAC'', AudioFile ''wav'' example_short)]"
  by (simp add: example_output_def)

lemma example_output_decoded:
  "map (from_file example_output ''/out/song_-14.0LUFS'')
     (filter has_valid_extension (map fst [(''kick.mp3'', AudioFile ''wav'' example_first),
           (''Vox.FLAC'', AudioFile ''wav'' example_short)])) =
   map Inr [example_first, example_short]"
  by (simp add: valid_kick_mp3 valid_Vox_FLAC from_file_def example_output_dir)

section \<open>The batch pipeline\<close>

text \<open>
  C2. When the stems of a folder decode and their mix measures at \<open>measured\<close>, the gain
  is \<open>target - measured\<close>, nothing else: it is the gain the run reports, and every stem
  found in the output folder afterwards is the discovered stem of the same name with
  that one gain applied.
\<close>

theorem same_gain_applied_to_every_stem:
  assumes dir: "fs w stems_folder = Some entries"
    and names: "distinct (map fst entries)"
    and decoded: "map (from_file w stems_folder) (filter has_valid_extension (map fst entries)) =
                    map Inr (first # others)"
    and loud: "calculate_loudness e (main_mix e first (first # others)) = Inr measured"
  shows "gain_adjustment_dB target measured = target - measured \<and>
    (\<exists>w'. adjust_stems_in_folder e stems_folder target base w = Inr w' \<and>
       ''Gain to apply to every stem: '' @ float_2f e (target - measured) @ '' db''
         \<in> set (console w') \<and>
       map (from_file w' (output_folder_of e stems_folder target base))
           (filter has_valid_extension (map fst entries)) =
         map (\<lambda>stem. Inr (apply_gain stem (target - measured))) (first # others))"
proof -
  let ?filenames = "filter has_valid_extension (map fst entries)"
  let ?adjusted = "map (\<lambda>stem. adjust_gain stem (target - measured)) (first # others)"
  let ?out = "output_folder_of e stems_folder target base"
  let ?written = "write_stems (existing_entries w ?out) (zip ?filenames ?adjusted)"
  have coll: "collect_stems w stems_folder (map fst entries) [] [] =
      Inr (first # others, ?filenames)"
    using collect_stems_decoded [OF decoded, of "[]" "[]"] by simp
  have len: "length ?filenames = length ?adjusted"
    using arg_cong [OF decoded, of length] by simp
  have dist: "distinct ?filenames" using names by simp
  obtain w' where run: "adjust_stems_in_folder e stems_folder target base w = Inr w'"
    and fs': "fs w' ?out = Some ?written"
    and con: "console w' = console w @
              [''Detected audio loudness: '' @ float_2f e measured @ '' LUFS'',
               ''Gain to apply to every stem: '' @ float_2f e (target - measured) @ '' db'',
               ''Adjusted stems saved to '' @ ?out]"
    using adjust_stems_in_folder_outcome [OF dir coll loud, of target base] by simp
  have "map (from_file w' ?out) ?filenames =
        map (\<lambda>stem. Inr (apply_gain stem (target - measured))) (first # others)"
  proof (rule nth_equalityI)
    show "length (map (from_file w' ?out) ?filenames) =
          length (map (\<lambda>stem. Inr (apply_gain stem (target - measured))) (first # others))"
      using len by simp
  next
    fix i
    assume "i < length (map (from_file w' ?out) ?filenames)"
    then have i: "i < length ?adjusted" using len by simp
    from written_stems_lookup [OF dist len i, of "existing_entries w ?out"] i
    have "map_of ?written (?filenames ! i) =
            Some (AudioFile ''wav'' (adjust_gain ((first # others) ! i) (target - measured)))"
      by (simp del: list.map)
    then have "from_file w' ?out (?filenames ! i) =
            Inr (apply_gain ((first # others) ! i) (target - measured))"
      by (simp add: from_file_def fs' adjust_gain_def)
    then show "map (from_file w' ?out) ?filenames ! i =
               map (\<lambda>stem. Inr (apply_gain stem (target - measured))) (first # others) ! i"
      using i len by (simp del: list.map)
  qed
  moreover
  have "''Gain to apply to every stem: '' @ float_2f e (target - measured) @ '' db''
          \<in> set (console w')"
    by (simp add: con)
  ultimately show ?thesis using run by (simp add: gain_adjustment_dB_def)
qed

theorem same_gain_applied_to_every_stem_witness:
  "gain_adjustment_dB (- 14) (- 20) = 6 \<and>
   (\<exists>w'. adjust_stems_in_folder (example_env (- 20)) ''/in/song'' (- 14) ''/out'' example_world
            = Inr w' \<and>
      ''Gain to apply to every stem: #.## db'' \<in> set (console w') \<and>
      map (from_file w' ''/out/song_-14.0LUFS'') [''kick.mp3'', ''Vox.FLAC''] =
        [Inr (apply_gain example_first 6), Inr (apply_gain example_short 6)])"
  using same_gain_applied_to_every_stem
    [OF example_song_dir example_song_names example_song_decoded example_loudness [of "- 20"],
     where target = "- 14" and base = "''/out''"]
  by (simp add: example_output_folder valid_kick_mp3 invalid_notes_txt valid_Vox_FLAC
      example_env_2f)

text \<open>
  C10. In a successful run the stem discovered at position \<open>i\<close> is exported into the
  output folder under exactly the name it was discovered with, whatever extension that
  name has, and what is stored under that name is WAV-encoded: the stem at position \<open>i\<close>
  with the gain applied.
\<close>

theorem exported_under_original_filename_as_wav:
  assumes dir: "fs w stems_folder = Some entries"
    and names: "distinct (map fst entries)"
    and decoded: "map (from_file w stems_folder) (filter has_valid_extension (map fst entries)) =
                    map Inr (first # others)"
    and loud: "calculate_loudness e (main_mix e first (first # others)) = Inr measured"
    and i: "i < length (first # others)"
  shows "\<exists>w' written.
           adjust_stems_in_folder e stems_folder target base w = Inr w' \<and>
           fs w' (output_folder_of e stems_folder target base) = Some written \<and>
           map_of written (filter has_valid_extension (map fst entries) ! i) =
             Some (AudioFile ''wav'' (adjust_gain ((first # others) ! i) (target - measured)))"
proof -
  let ?filenames = "filter has_valid_extension (map fst entries)"
  let ?adjusted = "map (\<lambda>stem. adjust_gain stem (target - measured)) (first # others)"
  have coll: "collect_stems w stems_folder (map fst entries) [] [] =
      Inr (first # others, ?filenames)"
    using collect_stems_decoded [OF decoded, of "[]" "[]"] by simp
  have len: "length ?filenames = length ?adjusted"
    using arg_cong [OF decoded, of length] by simp
  have "distinct ?filenames" using names by simp
  from written_stems_lookup [OF this len, of i] i
  have "map_of (write_stems (existing_entries w (output_folder_of e stems_folder target base))
          (zip ?filenames ?adjusted)) (?filenames ! i) =
        Some (AudioFile ''wav'' (adjust_gain ((first # others) ! i) (target - measured)))"
    by (simp del: list.map)
  then show ?thesis
    by (simp only: adjust_stems_in_folder_outcome [OF dir coll loud]) simp
qed

theorem exported_under_original_filename_as_wav_witness:
  "\<exists>w' written.
     adjust_stems_in_folder (example_env (- 20)) ''/in/song'' (- 14) ''/out'' example_world
       = Inr w' \<and>
     fs w' ''/out/song_-14.0LUFS'' = Some written \<and>
     map_of written ''Vox.FLAC'' = Some (AudioFile ''wav'' (adjust_gain example_short 6))"
proof -
  have i: "1 < length [example_first, example_short]" by simp
  from exported_under_original_filename_as_wav
    [OF example_song_dir example_song_names example_song_decoded
        example_loudness [of "- 20"] i,
     where target = "- 14" and base = "''/out''"]
  show ?thesis
    by (simp add: example_output_folder valid_kick_mp3 invalid_notes_txt valid_Vox_FLAC)
qed

text \<open>
  C6. For a folder in which no name has a recognised audio extension the pipeline
  returns normally, having printed the line "No audio files found in" followed by the
  folder, and leaves every directory as it was: no output folder is created.
\<close>

theorem no_audio_files_found:
  assumes dir: "fs w stems_folder = Some entries"
    and none: "filter has_valid_extension (map fst entries) = []"
  shows "\<exists>w'. adjust_stems_in_folder e stems_folder target base w = Inr w' \<and>
           console w' = console w @ [''No audio files found in '' @ stems_folder] \<and>
           fs w' = fs w"
  using dir collect_stems_empty [OF none, of w stems_folder "[]" "[]"]
  by (simp add: adjust_stems_in_folder_def os_listdir_def py_print_def)

theorem no_audio_files_found_witness:
  "\<exists>w'. adjust_stems_in_folder (example_env (- 20)) ''/in/docs'' (- 14) ''/out'' example_world
          = Inr w' \<and>
     console w' = [''No audio files found in /in/docs''] \<and>
     fs w' = fs example_world \<and>
     fs w' ''/out/docs_-14.0LUFS'' = None"
proof -
  have dir: "fs example_world ''/in/docs'' =
      Some [(''notes.txt'', NotAudio), (''cover.jpg'', NotAudio)]"
    by (simp add: example_world_def)
  have none: "filter has_valid_extension
      (map fst [(''notes.txt'', NotAudio), (''cover.jpg'', NotAudio)]) = []"
    by (simp add: invalid_notes_txt invalid_cover_jpg)
  from no_audio_files_found [OF dir none, of "example_env (- 20)" "- 14" "''/out''"]
  show ?thesis by (auto simp: example_world_def)
qed

section \<open>The verifier\<close>

lemma verify_output_loudness_no_audio:
  assumes "fs w output_folder = Some entries"
    and "filter has_valid_extension (map fst entries) = []"
  shows "verify_output_loudness e output_folder target w = Inl (NameError ''stems_folder'')"
  using assms(1) collect_output_stems_empty [OF assms(2), of w output_folder "[]"]
  by (simp add: verify_output_loudness_def os_listdir_def)

text \<open>
  C4. On an output folder that holds no recognised audio file the verifier does not
  return an inconclusive result: it raises \<^verbatim>\<open>NameError\<close>. Here the folder holds one text
  file.
\<close>

theorem verify_empty_folder_raises_NameError:
  "verify_output_loudness (example_env (- 14)) ''/out/docs_-14.0LUFS'' (- 14) example_output =
     Inl (NameError ''stems_folder'')"
proof (rule verify_output_loudness_no_audio)
  show "fs example_output ''/out/docs_-14.0LUFS'' = Some [(''notes.txt'', NotAudio)]"
    by (simp add: example_output_def)
  show "filter has_valid_extension (map fst [(''notes.txt'', NotAudio)]) = []"
    by (simp add: invalid_notes_txt)
qed

text \<open>
  C3, as the code has it. When the recognised files of the output folder decode and their
  mix measures at \<open>remeasured\<close>, the verifier prints that loudness and returns whether
  \<open>|remeasured - target| \<le> 0.1 + 0.00001 * |target|\<close>: the tolerance is the absolute 0.1
  plus the relative tolerance that \<^verbatim>\<open>numpy.isclose\<close> adds by default.
\<close>

theorem verify_output_loudness_isclose:
  assumes dir: "fs w output_folder = Some entries"
    and decoded: "map (from_file w output_folder) (filter has_valid_extension (map fst entries)) =
                    map Inr (first # others)"
    and loud: "calculate_loudness e (main_mix e first (first # others)) = Inr remeasured"
  shows "verify_output_loudness e output_folder target w =
           Inr (\<bar>remeasured - target\<bar> \<le> 1 / 10 + \<bar>target\<bar> / 100000,
                py_print (''Combined loudness of output stems: '' @
                  float_2f e remeasured @ '' LUFS'') w)"
  using dir collect_output_stems_decoded [OF decoded, of "[]"] loud
  by (simp add: verify_output_loudness_def os_listdir_def np_isclose_def isclose_default_rtol_def)

theorem verify_output_loudness_isclose_witness:
  "verify_output_loudness (example_env (- 1395 / 100)) ''/out/song_-14.0LUFS'' (- 14)
     example_output =
     Inr (True, example_output\<lparr>console := [''Combined loudness of output stems: #.## LUFS'']\<rparr>)"
  using verify_output_loudness_isclose
    [OF example_output_dir example_output_decoded example_loudness [of "- 1395 / 100"],
     where target = "- 14"]
  by (simp add: py_print_def example_env_2f example_output_def)

text \<open>
  C3, as stated, fails: for an output folder whose mix measures at -14.1001 and a target
  of -14 the verifier returns true, while the difference, 0.1001, is more than 0.1.
\<close>

theorem verify_tolerance_counterexample:
  "calculate_loudness (example_env (- 141001 / 10000))
     (main_mix (example_env (- 141001 / 10000)) example_first [example_first, example_short]) =
       Inr (- 141001 / 10000) \<and>
   verify_output_loudness (example_env (- 141001 / 10000)) ''/out/song_-14.0LUFS'' (- 14)
     example_output =
     Inr (True, example_output\<lparr>console := [''Combined loudness of output stems: #.## LUFS'']\<rparr>) \<and>
   \<not> \<bar>- 141001 / 10000 - (- 14)\<bar> \<le> (1 / 10 :: real)"
proof -
  have "verify_output_loudness (example_env (- 141001 / 10000)) ''/out/song_-14.0LUFS'' (- 14)
          example_output =
        Inr (np_isclose (- 141001 / 10000) (- 14) isclose_default_rtol (1 / 10),
             py_print (''Combined loudness of output stems: '' @
               float_2f (example_env (- 141001 / 10000)) (- 141001 / 10000) @ '' LUFS'')
               example_output)"
    using example_output_dir
      collect_output_stems_decoded [OF example_output_decoded, of "[]"]
    by (simp add: verify_output_loudness_def os_listdir_def example_loudness)
  then show ?thesis
    by (simp add: example_loudness np_isclose_def isclose_default_rtol_def py_print_def
        example_env_2f example_output_def)
qed

end
